theory Spec2Isabelle
  imports Complex_Main "HOL-Library.Char_ord"
begin

section \<open>Strings, numbers and dates of the host language\<close>

text \<open>
  A string is the list of its code units and \<open>length\<close> is the \<^verbatim>\<open>.length\<close> property.
  Code units are modelled by \<^typ>\<open>char\<close> (U+0000 to U+00FF); the character classes below are
  the ones the source's regular expressions name, restricted to that range.
\<close>

definition isWhiteSpace :: "char \<Rightarrow> bool" where
  \<comment> \<open>the class \<^verbatim>\<open>\s\<close>, which is also what \<^verbatim>\<open>trim()\<close> strips: TAB, LF, VT, FF, CR, SP, NBSP\<close>
  "isWhiteSpace c = ((of_char c :: nat) \<in> {9, 10, 11, 12, 13, 32, 160})"

definition isDigit :: "char \<Rightarrow> bool" where
  \<comment> \<open>\<^verbatim>\<open>\d\<close> and \<^verbatim>\<open>[0-9]\<close>\<close>
  "isDigit c = (CHR ''0'' \<le> c \<and> c \<le> CHR ''9'')"

definition isUpperAZ :: "char \<Rightarrow> bool" where
  \<comment> \<open>\<^verbatim>\<open>[A-Z]\<close>\<close>
  "isUpperAZ c = (CHR ''A'' \<le> c \<and> c \<le> CHR ''Z'')"


definition trim :: "string \<Rightarrow> string" where
  "trim s = rev (dropWhile isWhiteSpace (rev (dropWhile isWhiteSpace s)))"

definition removeWhiteSpace :: "string \<Rightarrow> string" where
  \<comment> \<open>\<^verbatim>\<open>s.replace(/\s/g, '')\<close>\<close>
  "removeWhiteSpace s = filter (\<lambda>c. \<not> isWhiteSpace c) s"

text \<open>
  \<^verbatim>\<open>toUpperCase()\<close> is the locale-independent case conversion of the runtime. Its result
  can be longer than the string (the sharp s U+00DF becomes \<^verbatim>\<open>SS\<close>) and can leave the range
  of \<^typ>\<open>char\<close> (the micro sign U+00B5 becomes U+039C, the y with diaeresis U+00FF becomes
  U+0178), so the result is given as the list of its code units, as numbers. The letters a
  to z, U+00E0 to U+00F6 and U+00F8 to U+00FE move down by 32; every other code unit of the
  range has no upper-case form and stays.
\<close>

definition codeUnits :: "string \<Rightarrow> nat list" where
  "codeUnits s = map of_char s"

definition upperCaseUnits :: "char \<Rightarrow> nat list" where
  "upperCaseUnits c =
     (let n = (of_char c :: nat) in
        if (97 \<le> n \<and> n \<le> 122) \<or> (224 \<le> n \<and> n \<le> 254 \<and> n \<noteq> 247) then [n - 32]
        else if n = 223 then [83, 83]
        else if n = 181 then [924]
        else if n = 255 then [376]
        else [n])"

definition toUpperCase :: "string \<Rightarrow> nat list" where
  "toUpperCase s = concat (map upperCaseUnits s)"

definition isUpperAZUnit :: "nat \<Rightarrow> bool" where
  \<comment> \<open>\<^verbatim>\<open>[A-Z]\<close> on a code unit\<close>
  "isUpperAZUnit n = (65 \<le> n \<and> n \<le> 90)"

definition truthy :: "string option \<Rightarrow> bool" where
  \<comment> \<open>an optional string used as a condition: \<^verbatim>\<open>undefined\<close> and \<^verbatim>\<open>''\<close> are falsy\<close>
  "truthy v = (case v of None \<Rightarrow> False | Some s \<Rightarrow> s \<noteq> [])"

definition templateString :: "string option \<Rightarrow> string" where
  \<comment> \<open>an optional string inside a template literal\<close>
  "templateString v = (case v of None \<Rightarrow> ''undefined'' | Some s \<Rightarrow> s)"

definition digitString :: "nat \<Rightarrow> string \<Rightarrow> bool" where
  \<comment> \<open>\<^verbatim>\<open>/^\d{1,n}$/.test(s)\<close>\<close>
  "digitString n s = (1 \<le> length s \<and> length s \<le> n \<and> list_all isDigit s)"

definition parseInt :: "string \<Rightarrow> nat" where
  \<comment> \<open>\<^verbatim>\<open>parseInt\<close> on a string of decimal digits\<close>
  "parseInt s = foldl (\<lambda>n c. 10 * n + ((of_char c :: nat) - 48)) 0 s"

text \<open>
  A \<^verbatim>\<open>number\<close> is a double: a finite value (every finite double is a rational), one of the
  two infinities, or NaN. Only comparisons are made on amounts.
\<close>

datatype number = Finite rat | Infinity | NegInfinity | NaN

definition isFinite :: "number \<Rightarrow> bool" where
  "isFinite x = (case x of Finite _ \<Rightarrow> True | _ \<Rightarrow> False)"

definition lessThan :: "number \<Rightarrow> rat \<Rightarrow> bool" where
  \<comment> \<open>\<^verbatim>\<open>x < q\<close> for a finite literal \<open>q\<close>; every comparison with NaN is false\<close>
  "lessThan x q = (case x of Finite r \<Rightarrow> r < q | NegInfinity \<Rightarrow> True | _ \<Rightarrow> False)"

definition greaterThan :: "number \<Rightarrow> rat \<Rightarrow> bool" where
  "greaterThan x q = (case x of Finite r \<Rightarrow> q < r | Infinity \<Rightarrow> True | _ \<Rightarrow> False)"

text \<open>
  \<^verbatim>\<open>new Date("YYYY-MM-DD")\<close> denotes midnight UTC of the day written. The runtime of the
  package (Node.js) takes a month from 1 to 12 and a day from 1 to 31, carries a day past the
  end of the month into the next month, and gives an invalid date (whose getters are NaN)
  otherwise. \<^verbatim>\<open>getFullYear\<close>, \<^verbatim>\<open>getMonth\<close> and \<^verbatim>\<open>getDate\<close> read the date in the
  host's local time: \<open>tz\<close> is the host's offset from UTC in minutes, between -24h and +24h.
\<close>

type_synonym civil = "int \<times> nat \<times> nat"

definition isLeapYear :: "int \<Rightarrow> bool" where
  "isLeapYear y = (y mod 4 = 0 \<and> (y mod 100 \<noteq> 0 \<or> y mod 400 = 0))"

definition daysInMonth :: "int \<Rightarrow> nat \<Rightarrow> nat" where
  "daysInMonth y m =
     (if m = 2 then (if isLeapYear y then 29 else 28)
      else if m = 4 \<or> m = 6 \<or> m = 9 \<or> m = 11 then 30 else 31)"

definition realDate :: "civil \<Rightarrow> bool" where
  "realDate c = (case c of (y, m, d) \<Rightarrow> 1 \<le> m \<and> m \<le> 12 \<and> 1 \<le> d \<and> d \<le> daysInMonth y m)"

definition utcDate :: "int \<Rightarrow> nat \<Rightarrow> nat \<Rightarrow> civil option" where
  "utcDate y m d =
     (if m < 1 \<or> 12 < m \<or> d < 1 \<or> 31 < d then None
      else if d \<le> daysInMonth y m then Some (y, m, d)
      else if m = 12 then Some (y + 1, 1, d - daysInMonth y m)
      else Some (y, m + 1, d - daysInMonth y m))"

definition prevDay :: "civil \<Rightarrow> civil" where
  "prevDay c =
     (case c of (y, m, d) \<Rightarrow>
        if 1 < d then (y, m, d - 1)
        else if 1 < m then (y, m - 1, daysInMonth y (m - 1))
        else (y - 1, 12, 31))"

definition localDate :: "int \<Rightarrow> civil \<Rightarrow> civil" where
  "localDate tz c = (if tz < 0 then prevDay c else c)"

definition matchISODate :: "string \<Rightarrow> (string \<times> string \<times> string) option" where
  \<comment> \<open>\<^verbatim>\<open>/^(\d{4})-(\d{2})-(\d{2})$/.exec(date)\<close>: the three groups\<close>
  "matchISODate date =
     (if length date = 10 \<and> list_all isDigit (take 4 date) \<and> date ! 4 = CHR ''-''
         \<and> list_all isDigit (take 2 (drop 5 date)) \<and> date ! 7 = CHR ''-''
         \<and> list_all isDigit (drop 8 date)
      then Some (take 4 date, take 2 (drop 5 date), drop 8 date) else None)"

section \<open>The canonical model of the codec\<close>

text \<open>
  The model that the codec library consumes and produces, as far as the adapter reads it.
  Every property the adapter guards with \<^verbatim>\<open>&&\<close> or \<^verbatim>\<open>?.\<close> is optional; an absent
  \<^verbatim>\<open>bankAccounts\<close> array behaves as the empty one.
\<close>

record BankAccount =
  iban :: string
  bic :: "string option"

record Beneficiary =
  name :: "string option"
  street :: "string option"
  city :: "string option"

record Payment =
  amount :: "number option"
  currencyCode :: "string option"
  bankAccounts :: "BankAccount list"
  variableSymbol :: "string option"
  constantSymbol :: "string option"
  specificSymbol :: "string option"
  paymentNote :: "string option"
  paymentDueDate :: "string option"
  beneficiary :: "Beneficiary option"
  originatorsReferenceInformation :: "string option"

record DataModel =
  payments :: "Payment list"

section \<open>Errors\<close>

text \<open>
  The error classes: one base class whose \<open>name\<close> is the name of the constructing class, and
  four subclasses whose constructors prefix the message they are given.
\<close>

datatype PayBySquareError = PayBySquareError (name: string) (message: string)

definition ValidationError :: "string \<Rightarrow> PayBySquareError" where
  "ValidationError msg = PayBySquareError ''ValidationError'' (''Validation Error: '' @ msg)"

definition EncodingError :: "string \<Rightarrow> PayBySquareError" where
  "EncodingError msg = PayBySquareError ''EncodingError'' (''Encoding Error: '' @ msg)"

definition GenerationError :: "string \<Rightarrow> PayBySquareError" where
  "GenerationError msg = PayBySquareError ''GenerationError'' (''Generation Error: '' @ msg)"

definition DecodingError :: "string \<Rightarrow> PayBySquareError" where
  "DecodingError msg = PayBySquareError ''DecodingError'' (''Decoding Error: '' @ msg)"

section \<open>The payment record\<close>

record BeneficiaryAddress =
  street :: "string option"
  city :: "string option"

text \<open>
  The interface \<^verbatim>\<open>PayBySquareInput\<close> requires \<open>iban\<close> and \<open>beneficiaryName\<close>; every other
  field is optional. \<^verbatim>\<open>validateInput\<close> is written for callers that bypass the type (the tests
  pass objects without an IBAN through \<^verbatim>\<open>as any\<close>) and guards both required fields with
  \<^verbatim>\<open>?.\<close>, so the record is declared once with the type of the required fields left open:
  a string for a well-typed record, an optional string for what the validator may be given.
\<close>

record 'req PayBySquareObject =
  iban :: 'req
  beneficiaryName :: 'req
  amount :: "number option"
  currency :: "string option"
  variableSymbol :: "string option"
  constantSymbol :: "string option"
  specificSymbol :: "string option"
  paymentNote :: "string option"
  dueDate :: "string option"
  swift :: "string option"
  originatorReference :: "string option"
  beneficiaryAddress :: "BeneficiaryAddress option"

type_synonym PayBySquareInput = "string PayBySquareObject"

type_synonym UntypedInput = "string option PayBySquareObject"

definition asAny :: "PayBySquareInput \<Rightarrow> UntypedInput" where
  \<comment> \<open>a well-typed record as the validator sees it\<close>
  "asAny input =
     \<lparr> iban = Some (iban input), beneficiaryName = Some (beneficiaryName input),
       amount = amount input, currency = currency input,
       variableSymbol = variableSymbol input, constantSymbol = constantSymbol input,
       specificSymbol = specificSymbol input, paymentNote = paymentNote input,
       dueDate = dueDate input, swift = swift input,
       originatorReference = originatorReference input,
       beneficiaryAddress = beneficiaryAddress input \<rparr>"

definition addressStreet :: "('r, 'z) PayBySquareObject_scheme \<Rightarrow> string option" where
  \<comment> \<open>\<^verbatim>\<open>input.beneficiaryAddress?.street\<close>\<close>
  "addressStreet input = (case beneficiaryAddress input of None \<Rightarrow> None | Some a \<Rightarrow> street a)"

definition addressCity :: "('r, 'z) PayBySquareObject_scheme \<Rightarrow> string option" where
  \<comment> \<open>\<^verbatim>\<open>input.beneficiaryAddress?.city\<close>\<close>
  "addressCity input = (case beneficiaryAddress input of None \<Rightarrow> None | Some a \<Rightarrow> city a)"

definition tooLong :: "nat \<Rightarrow> string option \<Rightarrow> bool" where
  \<comment> \<open>\<^verbatim>\<open>v && v.length > n\<close>\<close>
  "tooLong n v = (case v of None \<Rightarrow> False | Some s \<Rightarrow> s \<noteq> [] \<and> n < length s)"

definition badSymbol :: "nat \<Rightarrow> string option \<Rightarrow> bool" where
  \<comment> \<open>\<^verbatim>\<open>v && !/^\d{1,n}$/.test(v)\<close>\<close>
  "badSymbol n v = (case v of None \<Rightarrow> False | Some s \<Rightarrow> s \<noteq> [] \<and> \<not> digitString n s)"

section \<open>The validator\<close>

definition ibanPattern :: "string \<Rightarrow> bool" where
  \<comment> \<open>\<^verbatim>\<open>/^[A-Z]{2}[0-9]{2}[A-Z0-9]{11,30}$/.test(s)\<close>\<close>
  "ibanPattern s =
     (15 \<le> length s \<and> length s \<le> 34
      \<and> list_all isUpperAZ (take 2 s)
      \<and> list_all isDigit (take 2 (drop 2 s))
      \<and> list_all (\<lambda>c. isUpperAZ c \<or> isDigit c) (drop 4 s))"

definition isValidIBAN :: "string \<Rightarrow> bool" where
  "isValidIBAN iban' = (let cleaned = removeWhiteSpace iban' in ibanPattern cleaned)"

definition isValidCurrencyCode :: "string \<Rightarrow> bool" where
  \<comment> \<open>\<^verbatim>\<open>/^[A-Z]{3}$/.test(code.toUpperCase())\<close>\<close>
  "isValidCurrencyCode code =
     (let upper = toUpperCase code in length upper = 3 \<and> list_all isUpperAZUnit upper)"

definition isValidISODate :: "int \<Rightarrow> string \<Rightarrow> bool" where
  "isValidISODate tz date =
     (case matchISODate date of
        None \<Rightarrow> False
      | Some (year, month, day) \<Rightarrow>
          (case utcDate (int (parseInt year)) (parseInt month) (parseInt day) of
             None \<Rightarrow> False
           | Some dateObj \<Rightarrow>
               localDate tz dateObj = (int (parseInt year), parseInt month, parseInt day)))"

definition validateInput :: "int \<Rightarrow> UntypedInput \<Rightarrow> PayBySquareError + unit" where
  "validateInput tz input =
     (case iban input of
        None \<Rightarrow> Inl (ValidationError ''IBAN is required'')
      | Some iban' \<Rightarrow>
     if trim iban' = [] then Inl (ValidationError ''IBAN is required'')
     else (case beneficiaryName input of
        None \<Rightarrow> Inl (ValidationError ''Beneficiary name is required'')
      | Some name' \<Rightarrow>
     if trim name' = [] then Inl (ValidationError ''Beneficiary name is required'')
     else if \<not> isValidIBAN iban' then Inl (ValidationError ''Invalid IBAN format'')
     else if (case amount input of None \<Rightarrow> False | Some a \<Rightarrow> lessThan a 0)
       then Inl (ValidationError ''Amount must be a positive number'')
     else if (case amount input of None \<Rightarrow> False | Some a \<Rightarrow> \<not> isFinite a)
       then Inl (ValidationError ''Amount must be a finite number'')
     else if (case currency input of None \<Rightarrow> False
              | Some c \<Rightarrow> c \<noteq> [] \<and> \<not> isValidCurrencyCode c)
       then Inl (ValidationError (''Invalid currency code: '' @ templateString (currency input)))
     else if badSymbol 10 (variableSymbol input)
       then Inl (ValidationError ''Variable symbol must be 1-10 digits'')
     else if badSymbol 4 (constantSymbol input)
       then Inl (ValidationError ''Constant symbol must be 1-4 digits'')
     else if badSymbol 10 (specificSymbol input)
       then Inl (ValidationError ''Specific symbol must be 1-10 digits'')
     else if tooLong 140 (paymentNote input)
       then Inl (ValidationError ''Payment note cannot exceed 140 characters'')
     else if 70 < length name'
       then Inl (ValidationError ''Beneficiary name cannot exceed 70 characters'')
     else if tooLong 70 (addressStreet input)
       then Inl (ValidationError ''Beneficiary street cannot exceed 70 characters'')
     else if tooLong 70 (addressCity input)
       then Inl (ValidationError ''Beneficiary city cannot exceed 70 characters'')
     else if (case dueDate input of None \<Rightarrow> False
              | Some d \<Rightarrow> d \<noteq> [] \<and> \<not> isValidISODate tz d)
       then Inl (ValidationError ''Due date must be in ISO 8601 format (YYYY-MM-DD)'')
     else Inr ()))"

text \<open>
  The rules of \<^verbatim>\<open>validateInput\<close> one by one, in the order of the specification: each
  condition under which a rule is violated, with the text of its error.
\<close>

definition ibanMissing :: "UntypedInput \<Rightarrow> bool" where
  "ibanMissing input = (case iban input of None \<Rightarrow> True | Some s \<Rightarrow> trim s = [])"

definition nameMissing :: "UntypedInput \<Rightarrow> bool" where
  "nameMissing input = (case beneficiaryName input of None \<Rightarrow> True | Some s \<Rightarrow> trim s = [])"

definition ibanMalformed :: "UntypedInput \<Rightarrow> bool" where
  "ibanMalformed input = (case iban input of None \<Rightarrow> True | Some s \<Rightarrow> \<not> isValidIBAN s)"

definition amountNegative :: "UntypedInput \<Rightarrow> bool" where
  "amountNegative input = (case amount input of None \<Rightarrow> False | Some a \<Rightarrow> lessThan a 0)"

definition amountNotFinite :: "UntypedInput \<Rightarrow> bool" where
  "amountNotFinite input = (case amount input of None \<Rightarrow> False | Some a \<Rightarrow> \<not> isFinite a)"

definition currencyMalformed :: "UntypedInput \<Rightarrow> bool" where
  "currencyMalformed input =
     (case currency input of None \<Rightarrow> False | Some c \<Rightarrow> c \<noteq> [] \<and> \<not> isValidCurrencyCode c)"

definition nameTooLong :: "UntypedInput \<Rightarrow> bool" where
  "nameTooLong input = (case beneficiaryName input of None \<Rightarrow> False | Some s \<Rightarrow> 70 < length s)"

definition dueDateMalformed :: "int \<Rightarrow> UntypedInput \<Rightarrow> bool" where
  "dueDateMalformed tz input =
     (case dueDate input of None \<Rightarrow> False | Some d \<Rightarrow> d \<noteq> [] \<and> \<not> isValidISODate tz d)"

definition validationRules ::
  "int \<Rightarrow> ((UntypedInput \<Rightarrow> bool) \<times> (UntypedInput \<Rightarrow> string)) list" where
  "validationRules tz =
    [(ibanMissing, \<lambda>_. ''IBAN is required''),
     (nameMissing, \<lambda>_. ''Beneficiary name is required''),
     (ibanMalformed, \<lambda>_. ''Invalid IBAN format''),
     (amountNegative, \<lambda>_. ''Amount must be a positive number''),
     (amountNotFinite, \<lambda>_. ''Amount must be a finite number''),
     (currencyMalformed, \<lambda>input. ''Invalid currency code: '' @ templateString (currency input)),
     (\<lambda>input. badSymbol 10 (variableSymbol input), \<lambda>_. ''Variable symbol must be 1-10 digits''),
     (\<lambda>input. badSymbol 4 (constantSymbol input), \<lambda>_. ''Constant symbol must be 1-4 digits''),
     (\<lambda>input. badSymbol 10 (specificSymbol input), \<lambda>_. ''Specific symbol must be 1-10 digits''),
     (\<lambda>input. tooLong 140 (paymentNote input), \<lambda>_. ''Payment note cannot exceed 140 characters''),
     (nameTooLong, \<lambda>_. ''Beneficiary name cannot exceed 70 characters''),
     (\<lambda>input. tooLong 70 (addressStreet input),
        \<lambda>_. ''Beneficiary street cannot exceed 70 characters''),
     (\<lambda>input. tooLong 70 (addressCity input),
        \<lambda>_. ''Beneficiary city cannot exceed 70 characters''),
     (dueDateMalformed tz, \<lambda>_. ''Due date must be in ISO 8601 format (YYYY-MM-DD)'')]"

definition firstViolation :: "int \<Rightarrow> UntypedInput \<Rightarrow> string option" where
  \<comment> \<open>the error text of the first rule of the list that the record violates\<close>
  "firstViolation tz input =
     map_option (\<lambda>rule. snd rule input) (find (\<lambda>rule. fst rule input) (validationRules tz))"



section \<open>The compliance engine\<close>

datatype IssueType = Error | Warning

datatype Severity = Critical | Major | Minor

record ComplianceIssue =
  type :: IssueType
  field :: string
  message :: string
  severity :: Severity

record ComplianceDetails =
  ibanValid :: bool
  fieldsValid :: bool
  bankingStandardsValid :: bool
  totalIssues :: nat

record ComplianceResult =
  isCompliant :: bool
  errors :: "ComplianceIssue list"
  warnings :: "ComplianceIssue list"
  details :: ComplianceDetails

text \<open>
  What the engine imports from other packages: the IBAN and BIC checks of the IBAN library
  and the currency table of the codec library (\<open>CurrencyCode k\<close> stands for
  \<^verbatim>\<open>k in CurrencyCode\<close>, for the code units \<open>k\<close> of an upper-cased currency). The engine is
  verified for every such library.
\<close>

record Library =
  ibantools_isValidIBAN :: "string \<Rightarrow> bool"
  ibantools_isValidBIC :: "string \<Rightarrow> bool"
  CurrencyCode :: "nat list \<Rightarrow> bool"

definition push :: "bool \<Rightarrow> ComplianceIssue \<Rightarrow> ComplianceIssue list \<Rightarrow> ComplianceIssue list" where
  \<comment> \<open>\<^verbatim>\<open>if (cond) issues.push(issue)\<close>\<close>
  "push cond issue issues = (if cond then issues @ [issue] else issues)"

definition isError :: "ComplianceIssue \<Rightarrow> bool" where
  \<comment> \<open>\<^verbatim>\<open>i => i.type === 'error'\<close>\<close>
  "isError i = (type i = Error)"

definition validateIBANChecksum :: "Library \<Rightarrow> string \<Rightarrow> ComplianceIssue option" where
  "validateIBANChecksum lib iban' =
     (if \<not> ibantools_isValidIBAN lib iban'
      then Some \<lparr> type = Error, field = ''iban'',
                  message = ''IBAN checksum validation failed (mod-97 algorithm)'',
                  severity = Critical \<rparr>
      else None)"

definition validateFieldFormats :: "PayBySquareInput \<Rightarrow> ComplianceIssue list" where
  "validateFieldFormats input =
     (let issues = [];
          ibanCleaned = removeWhiteSpace (iban input);
          issues = push (length ibanCleaned < 15 \<or> 34 < length ibanCleaned)
            \<lparr> type = Error, field = ''iban'',
              message = ''IBAN length must be between 15 and 34 characters'',
              severity = Major \<rparr> issues;
          issues = push (70 < length (beneficiaryName input))
            \<lparr> type = Error, field = ''beneficiaryName'',
              message = ''Exceeds maximum length of 70 characters'', severity = Major \<rparr> issues;
          issues = push (badSymbol 10 (variableSymbol input))
            \<lparr> type = Error, field = ''variableSymbol'',
              message = ''Must contain only digits (1-10)'', severity = Major \<rparr> issues;
          issues = push (badSymbol 4 (constantSymbol input))
            \<lparr> type = Error, field = ''constantSymbol'',
              message = ''Must contain only digits (1-4)'', severity = Major \<rparr> issues;
          issues = push (badSymbol 10 (specificSymbol input))
            \<lparr> type = Error, field = ''specificSymbol'',
              message = ''Must contain only digits (1-10)'', severity = Major \<rparr> issues;
          issues = push (tooLong 140 (paymentNote input))
            \<lparr> type = Error, field = ''paymentNote'',
              message = ''Exceeds maximum length of 140 characters'', severity = Major \<rparr> issues;
          issues = push (tooLong 70 (addressStreet input))
            \<lparr> type = Error, field = ''beneficiaryAddress.street'',
              message = ''Exceeds maximum length of 70 characters'', severity = Minor \<rparr> issues;
          issues = push (tooLong 70 (addressCity input))
            \<lparr> type = Error, field = ''beneficiaryAddress.city'',
              message = ''Exceeds maximum length of 70 characters'', severity = Minor \<rparr> issues;
          issues = push (case dueDate input of None \<Rightarrow> False
                         | Some d \<Rightarrow> d \<noteq> [] \<and> matchISODate d = None)
            \<lparr> type = Error, field = ''dueDate'',
              message = ''Must be in ISO 8601 format (YYYY-MM-DD)'', severity = Major \<rparr> issues
      in issues)"

definition validateBankingStandards :: "Library \<Rightarrow> PayBySquareInput \<Rightarrow> ComplianceIssue list" where
  "validateBankingStandards lib input =
     (let issues = [];
          issues = push (case swift input of None \<Rightarrow> False
                         | Some b \<Rightarrow> b \<noteq> [] \<and> \<not> ibantools_isValidBIC lib b)
            \<lparr> type = Error, field = ''swift'',
              message = ''Invalid BIC/SWIFT code format'', severity = Major \<rparr> issues;
          issues = push (case currency input of None \<Rightarrow> False
                         | Some c \<Rightarrow> c \<noteq> [] \<and> \<not> CurrencyCode lib (toUpperCase c))
            \<lparr> type = Warning, field = ''currency'',
              message = ''Currency code not in ISO 4217 standard'', severity = Minor \<rparr> issues;
          issues = push (case amount input of None \<Rightarrow> False | Some a \<Rightarrow> lessThan a 0)
            \<lparr> type = Error, field = ''amount'',
              message = ''Amount must be positive'', severity = Critical \<rparr> issues;
          issues = push (case amount input of None \<Rightarrow> False
                         | Some a \<Rightarrow> greaterThan a 999999999999999)
            \<lparr> type = Error, field = ''amount'',
              message = ''Amount exceeds PayBySquare maximum (999,999,999,999,999)'',
              severity = Major \<rparr> issues;
          issues = push (case amount input of None \<Rightarrow> False | Some a \<Rightarrow> \<not> isFinite a)
            \<lparr> type = Error, field = ''amount'',
              message = ''Amount must be a finite number'', severity = Critical \<rparr> issues
      in issues)"

definition isCompliant :: "Library \<Rightarrow> PayBySquareInput \<Rightarrow> bool" where
  "isCompliant lib input =
     (if \<not> ibantools_isValidIBAN lib (iban input) then False
      else
        (let issues = [];
             issues = issues @ validateFieldFormats input;
             issues = issues @ validateBankingStandards lib input;
             errors' = filter isError issues
         in length errors' = 0))"

definition sortIssue ::
  "ComplianceIssue \<Rightarrow> ComplianceIssue list \<times> ComplianceIssue list
     \<Rightarrow> ComplianceIssue list \<times> ComplianceIssue list" where
  \<comment> \<open>the body of both \<^verbatim>\<open>forEach\<close> loops, on the pair of \<open>errors\<close> and \<open>warnings\<close>\<close>
  "sortIssue issue acc =
     (case acc of (errors', warnings') \<Rightarrow>
        if type issue = Error then (errors' @ [issue], warnings')
        else (errors', warnings' @ [issue]))"

definition checkCompliance :: "Library \<Rightarrow> PayBySquareInput \<Rightarrow> ComplianceResult" where
  "checkCompliance lib input =
     (let ibanIssue = validateIBANChecksum lib (iban input);
          acc = (case ibanIssue of None \<Rightarrow> ([], []) | Some issue \<Rightarrow> ([issue], []));
          fieldIssues = validateFieldFormats input;
          acc = fold sortIssue fieldIssues acc;
          bankingIssues = validateBankingStandards lib input;
          acc = fold sortIssue bankingIssues acc;
          errors' = fst acc;
          warnings' = snd acc;
          details' = \<lparr> ibanValid = (ibanIssue = None),
                       fieldsValid = (length (filter isError fieldIssues) = 0),
                       bankingStandardsValid = (length (filter isError bankingIssues) = 0),
                       totalIssues = length errors' + length warnings' \<rparr>
      in \<lparr> ComplianceResult.isCompliant = (length errors' = 0), errors = errors',
           warnings = warnings',
           details = details' \<rparr>)"

text \<open>
  Modelled from the spec: the IBAN checksum primitive. The engine takes it from the IBAN
  library, which is not part of the sources; the specification describes it as the mod-97
  validation of the standard IBAN checksum algorithm, a pure function from the string to a
  truth value: the string is letters and digits only, its first four characters are moved
  to the end, letters stand for 10 to 35, and the number read must leave remainder 1.
\<close>

definition mod97 :: "string \<Rightarrow> nat" where
  "mod97 s =
     foldl (\<lambda>r c. if isDigit c then (r * 10 + ((of_char c :: nat) - 48)) mod 97
                   else (r * 100 + ((of_char c :: nat) - 55)) mod 97) 0 s"

definition checksumValid :: "string \<Rightarrow> bool" where
  "checksumValid s =
     (4 < length s \<and> list_all (\<lambda>c. isUpperAZ c \<or> isDigit c) s
      \<and> mod97 (drop 4 s @ take 4 s) = 1)"

section \<open>The adapter from the canonical model\<close>

definition keep :: "string option \<Rightarrow> string option" where
  \<comment> \<open>\<^verbatim>\<open>...(v && { key: v })\<close>: the property is set when the value is truthy\<close>
  "keep v = (if truthy v then v else None)"

definition transformFromDataModel :: "DataModel \<Rightarrow> PayBySquareError + PayBySquareInput" where
  "transformFromDataModel data =
     (case payments data of
        [] \<Rightarrow> Inl (DecodingError ''No payment data found in QR code'')
      | payment # _ \<Rightarrow>
     (case bankAccounts payment of
        [] \<Rightarrow> Inl (DecodingError ''No IBAN found in payment data'')
      | bankAccount # _ \<Rightarrow>
     if BankAccount.iban bankAccount = []
     then Inl (DecodingError ''No IBAN found in payment data'')
     else Inr
       \<lparr> iban = BankAccount.iban bankAccount,
         beneficiaryName =
           (case beneficiary payment of
              None \<Rightarrow> []
            | Some b \<Rightarrow> (case Beneficiary.name b of None \<Rightarrow> [] | Some n \<Rightarrow> n)),
         amount = (if truthy (currencyCode payment) then Payment.amount payment else None),
         currency = (if truthy (currencyCode payment) then currencyCode payment else None),
         variableSymbol = keep (Payment.variableSymbol payment),
         constantSymbol = keep (Payment.constantSymbol payment),
         specificSymbol = keep (Payment.specificSymbol payment),
         paymentNote = keep (Payment.paymentNote payment),
         dueDate = keep (paymentDueDate payment),
         swift = keep (bic bankAccount),
         originatorReference = keep (originatorsReferenceInformation payment),
         beneficiaryAddress =
           (case beneficiary payment of
              None \<Rightarrow> None
            | Some b \<Rightarrow>
                if truthy (Beneficiary.street b) \<or> truthy (Beneficiary.city b)
                then Some \<lparr> street = keep (Beneficiary.street b),
                            city = keep (Beneficiary.city b) \<rparr>
                else None) \<rparr>))"

definition carriesIBAN :: "BankAccount \<Rightarrow> bool" where
  "carriesIBAN account = (BankAccount.iban account \<noteq> [])"

definition firstAccountIBAN :: "DataModel \<Rightarrow> string option" where
  \<comment> \<open>the IBAN of the first bank account of the first payment, when there is one\<close>
  "firstAccountIBAN data =
     (case payments data of
        [] \<Rightarrow> None
      | payment # _ \<Rightarrow>
          (case bankAccounts payment of
             [] \<Rightarrow> None
           | account # _ \<Rightarrow> if carriesIBAN account then Some (BankAccount.iban account) else None))"

section \<open>Notions used in the statements\<close>

definition ibanChecksumIssue :: ComplianceIssue where
  "ibanChecksumIssue =
     \<lparr> type = Error, field = ''iban'',
       message = ''IBAN checksum validation failed (mod-97 algorithm)'',
       severity = Critical \<rparr>"

definition fieldIs :: "string \<Rightarrow> ComplianceIssue \<Rightarrow> bool" where
  "fieldIs f issue = (field issue = f)"

definition checksumErrors :: "Library \<Rightarrow> PayBySquareInput \<Rightarrow> ComplianceIssue list" where
  \<comment> \<open>what the checksum step contributes to the errors: its issue, if any\<close>
  "checksumErrors lib input =
     (case validateIBANChecksum lib (iban input) of None \<Rightarrow> [] | Some issue \<Rightarrow> [issue])"

definition isWarning :: "ComplianceIssue \<Rightarrow> bool" where
  "isWarning i = (\<not> isError i)"

section \<open>Example records\<close>

definition minimalInput :: PayBySquareInput where
  "minimalInput =
     \<lparr> iban = ''SK9611000000002918599669'', beneficiaryName = ''X'',
       amount = None, currency = None, variableSymbol = None, constantSymbol = None,
       specificSymbol = None, paymentNote = None, dueDate = None, swift = None,
       originatorReference = None, beneficiaryAddress = None \<rparr>"

definition manyViolations :: UntypedInput where
  \<comment> \<open>no IBAN, and four later rules violated as well\<close>
  "manyViolations =
     \<lparr> iban = None, beneficiaryName = Some ''X'',
       amount = Some (Finite (- 100)), currency = Some ''EURO'',
       variableSymbol = Some ''ABC'', constantSymbol = None,
       specificSymbol = None, paymentNote = None, dueDate = Some ''2026/12/31'',
       swift = None, originatorReference = None, beneficiaryAddress = None \<rparr>"



definition february30 :: PayBySquareInput where
  "february30 = minimalInput\<lparr>beneficiaryName := ''Test'', dueDate := Some ''2026-02-30''\<rparr>"

definition spacedIBAN :: PayBySquareInput where
  "spacedIBAN = minimalInput\<lparr>iban := ''SK96 1100 0000 0029 1859 9669''\<rparr>"

definition noAmountPayment :: Payment where
  \<comment> \<open>what the codec returns for a payment without amount: amount 0 and an empty currency\<close>
  "noAmountPayment =
     \<lparr> Payment.amount = Some (Finite 0), currencyCode = Some [],
       bankAccounts = [\<lparr> BankAccount.iban = ''SK9611000000002918599669'', bic = None \<rparr>],
       variableSymbol = None, constantSymbol = None, specificSymbol = None,
       paymentNote = None, paymentDueDate = None,
       beneficiary = Some \<lparr> Beneficiary.name = Some ''X'', street = None, city = None \<rparr>,
       originatorsReferenceInformation = None \<rparr>"

definition secondAccountOnly :: DataModel where
  \<comment> \<open>the first bank account has no IBAN, the second one has\<close>
  "secondAccountOnly =
     \<lparr> payments = [noAmountPayment\<lparr> bankAccounts :=
         [\<lparr> BankAccount.iban = [], bic = None \<rparr>,
          \<lparr> BankAccount.iban = ''SK9611000000002918599669'', bic = None \<rparr>] \<rparr>] \<rparr>"

definition modelLibrary :: Library where
  \<comment> \<open>the modelled checksum primitive, with a BIC check and a currency table for examples\<close>
  "modelLibrary =
     \<lparr> ibantools_isValidIBAN = checksumValid,
       ibantools_isValidBIC = (\<lambda>b. length b = 8 \<or> length b = 11),
       CurrencyCode = (\<lambda>k. k = codeUnits ''EUR'' \<or> k = codeUnits ''USD''
                         \<or> k = codeUnits ''CZK'' \<or> k = codeUnits ''GBP'') \<rparr>"

definition sentinelModel :: DataModel where
  "sentinelModel = \<lparr> payments = [noAmountPayment] \<rparr>"

definition paidModel :: DataModel where
  "paidModel =
     \<lparr> payments = [noAmountPayment\<lparr> Payment.amount := Some (Finite (201 / 2)),
                                     currencyCode := Some ''EUR'' \<rparr>] \<rparr>"

definition unknownCurrency :: PayBySquareInput where
  \<comment> \<open>a well-formed currency code that the table does not know: a warning, no error\<close>
  "unknownCurrency = minimalInput\<lparr>amount := Some (Finite 10), currency := Some ''XXX''\<rparr>"

section \<open>The validator: properties\<close>

lemma validateInput_firstViolation:
  "validateInput tz input =
     (case firstViolation tz input of None \<Rightarrow> Inr () | Some text \<Rightarrow> Inl (ValidationError text))"
proof (cases "iban input")
  case None
  then show ?thesis
    by (simp add: validateInput_def firstViolation_def validationRules_def ibanMissing_def)
next
  case ib: (Some iban')
  show ?thesis
  proof (cases "beneficiaryName input")
    case None
    then show ?thesis using ib
      by (simp add: validateInput_def firstViolation_def validationRules_def ibanMissing_def
          nameMissing_def)
  next
    case (Some name')
    then show ?thesis using ib
      by (simp add: validateInput_def firstViolation_def validationRules_def
          ibanMissing_def nameMissing_def ibanMalformed_def amountNegative_def amountNotFinite_def
          currencyMalformed_def nameTooLong_def dueDateMalformed_def)
  qed
qed

lemma validateInput_ok_iff:
  "validateInput tz input = Inr () \<longleftrightarrow>
     \<not> ibanMissing input \<and> \<not> nameMissing input \<and> \<not> ibanMalformed input
     \<and> \<not> amountNegative input \<and> \<not> amountNotFinite input \<and> \<not> currencyMalformed input
     \<and> \<not> badSymbol 10 (variableSymbol input) \<and> \<not> badSymbol 4 (constantSymbol input)
     \<and> \<not> badSymbol 10 (specificSymbol input) \<and> \<not> tooLong 140 (paymentNote input)
     \<and> \<not> nameTooLong input \<and> \<not> tooLong 70 (addressStreet input)
     \<and> \<not> tooLong 70 (addressCity input) \<and> \<not> dueDateMalformed tz input"
  unfolding validateInput_firstViolation firstViolation_def validationRules_def
  by simp

lemma validateInput_error:
  "validateInput tz input = Inl e \<longleftrightarrow>
     (\<exists>text. firstViolation tz input = Some text \<and> e = ValidationError text)"
  unfolding validateInput_firstViolation by (auto split: option.splits)

lemma firstViolation_no_iban: "iban input = None \<Longrightarrow> firstViolation tz input = Some ''IBAN is required''"
  by (simp add: firstViolation_def validationRules_def ibanMissing_def)

text \<open>
  C2. Fail-fast ordering: \<^verbatim>\<open>validateInput\<close> raises the error of the first rule violated in
  the order IBAN present, beneficiary name present, IBAN structure, amount sign, amount
  finiteness, currency structure, variable, constant and specific symbol, payment note
  length, beneficiary name length, street length, city length, due date; and returns when no
  rule is violated. A record without an IBAN fails with the text "IBAN is required",
  whatever else is wrong with it.
\<close>

theorem validateInput_fail_fast:
  "validateInput tz input =
     (case firstViolation tz input of None \<Rightarrow> Inr () | Some text \<Rightarrow> Inl (ValidationError text))
   \<and> (iban input = None \<longrightarrow> validateInput tz input = Inl (ValidationError ''IBAN is required''))"
  using validateInput_firstViolation [of tz input] firstViolation_no_iban [of input tz]
  by simp

theorem validateInput_fail_fast_witness:
  "iban manyViolations = None
   \<and> beneficiaryName manyViolations = Some ''X''
   \<and> validateInput 0 manyViolations = Inl (ValidationError ''IBAN is required'')"
proof -
  have none: "iban manyViolations = None"
    by (simp add: manyViolations_def)
  from validateInput_fail_fast [of 0 manyViolations] none
  have "validateInput 0 manyViolations = Inl (ValidationError ''IBAN is required'')"
    by blast
  with none show ?thesis
    by (simp add: manyViolations_def)
qed

lemmas rule_defs =
  ibanMissing_def nameMissing_def ibanMalformed_def amountNegative_def amountNotFinite_def
  currencyMalformed_def nameTooLong_def dueDateMalformed_def addressStreet_def addressCity_def

lemma name_boundary:
  assumes "validateInput tz input = Inr ()" and "trim n \<noteq> []"
  shows "validateInput tz (input\<lparr>beneficiaryName := Some n\<rparr>) =
    (if length n \<le> 70 then Inr ()
     else Inl (ValidationError ''Beneficiary name cannot exceed 70 characters''))"
  using assms unfolding validateInput_ok_iff
  unfolding validateInput_firstViolation firstViolation_def validationRules_def
  by (simp add: rule_defs)

lemma note_boundary:
  assumes "validateInput tz input = Inr ()"
  shows "validateInput tz (input\<lparr>paymentNote := Some n\<rparr>) =
    (if length n \<le> 140 then Inr ()
     else Inl (ValidationError ''Payment note cannot exceed 140 characters''))"
  using assms unfolding validateInput_ok_iff
  unfolding validateInput_firstViolation firstViolation_def validationRules_def
  by (simp add: rule_defs tooLong_def)

lemma variableSymbol_boundary:
  assumes "validateInput tz input = Inr ()" and "v \<noteq> []" and "list_all isDigit v"
  shows "validateInput tz (input\<lparr>variableSymbol := Some v\<rparr>) =
    (if length v \<le> 10 then Inr ()
     else Inl (ValidationError ''Variable symbol must be 1-10 digits''))"
  using assms unfolding validateInput_ok_iff
  unfolding validateInput_firstViolation firstViolation_def validationRules_def
  by (cases v) (simp_all add: rule_defs badSymbol_def digitString_def)

lemma constantSymbol_boundary:
  assumes "validateInput tz input = Inr ()" and "v \<noteq> []" and "list_all isDigit v"
  shows "validateInput tz (input\<lparr>constantSymbol := Some v\<rparr>) =
    (if length v \<le> 4 then Inr ()
     else Inl (ValidationError ''Constant symbol must be 1-4 digits''))"
  using assms unfolding validateInput_ok_iff
  unfolding validateInput_firstViolation firstViolation_def validationRules_def
  by (cases v) (simp_all add: rule_defs badSymbol_def digitString_def)

lemma specificSymbol_boundary:
  assumes "validateInput tz input = Inr ()" and "v \<noteq> []" and "list_all isDigit v"
  shows "validateInput tz (input\<lparr>specificSymbol := Some v\<rparr>) =
    (if length v \<le> 10 then Inr ()
     else Inl (ValidationError ''Specific symbol must be 1-10 digits''))"
  using assms unfolding validateInput_ok_iff
  unfolding validateInput_firstViolation firstViolation_def validationRules_def
  by (cases v) (simp_all add: rule_defs badSymbol_def digitString_def)

lemma street_boundary:
  assumes "validateInput tz input = Inr ()" and "\<not> tooLong 70 (city a)"
  shows "validateInput tz (input\<lparr>beneficiaryAddress := Some (a\<lparr>street := Some s\<rparr>)\<rparr>) =
    (if length s \<le> 70 then Inr ()
     else Inl (ValidationError ''Beneficiary street cannot exceed 70 characters''))"
  using assms unfolding validateInput_ok_iff
  unfolding validateInput_firstViolation firstViolation_def validationRules_def
  by (simp add: rule_defs tooLong_def)

lemma city_boundary:
  assumes "validateInput tz input = Inr ()" and "\<not> tooLong 70 (street a)"
  shows "validateInput tz (input\<lparr>beneficiaryAddress := Some (a\<lparr>city := Some s\<rparr>)\<rparr>) =
    (if length s \<le> 70 then Inr ()
     else Inl (ValidationError ''Beneficiary city cannot exceed 70 characters''))"
  using assms unfolding validateInput_ok_iff
  unfolding validateInput_firstViolation firstViolation_def validationRules_def
  by (simp add: rule_defs tooLong_def)

text \<open>
  C4. Boundary acceptance. Take a record that validates and replace one field: a beneficiary
  name (not blank) passes with up to 70 characters, so with exactly 70, and fails with
  "Beneficiary name cannot exceed 70 characters" beyond, so with 71. The same holds for
  the payment note at 140 characters, for the variable and the specific symbol at 10 digits,
  for the constant symbol at 4 digits, and for the street and the city of the address at 70
  characters, each with the error text of its own rule.
\<close>

theorem boundary_acceptance:
  assumes "validateInput tz input = Inr ()"
  shows
    "(trim n \<noteq> [] \<longrightarrow>
        validateInput tz (input\<lparr>beneficiaryName := Some n\<rparr>) =
          (if length n \<le> 70 then Inr ()
           else Inl (ValidationError ''Beneficiary name cannot exceed 70 characters'')))
     \<and> validateInput tz (input\<lparr>paymentNote := Some memo\<rparr>) =
          (if length memo \<le> 140 then Inr ()
           else Inl (ValidationError ''Payment note cannot exceed 140 characters''))
     \<and> (v \<noteq> [] \<and> list_all isDigit v \<longrightarrow>
          validateInput tz (input\<lparr>variableSymbol := Some v\<rparr>) =
            (if length v \<le> 10 then Inr ()
             else Inl (ValidationError ''Variable symbol must be 1-10 digits''))
          \<and> validateInput tz (input\<lparr>specificSymbol := Some v\<rparr>) =
            (if length v \<le> 10 then Inr ()
             else Inl (ValidationError ''Specific symbol must be 1-10 digits''))
          \<and> validateInput tz (input\<lparr>constantSymbol := Some v\<rparr>) =
            (if length v \<le> 4 then Inr ()
             else Inl (ValidationError ''Constant symbol must be 1-4 digits'')))
     \<and> (\<not> tooLong 70 (city a) \<longrightarrow>
          validateInput tz (input\<lparr>beneficiaryAddress := Some (a\<lparr>street := Some s\<rparr>)\<rparr>) =
            (if length s \<le> 70 then Inr ()
             else Inl (ValidationError ''Beneficiary street cannot exceed 70 characters'')))
     \<and> (\<not> tooLong 70 (street a) \<longrightarrow>
          validateInput tz (input\<lparr>beneficiaryAddress := Some (a\<lparr>city := Some s\<rparr>)\<rparr>) =
            (if length s \<le> 70 then Inr ()
             else Inl (ValidationError ''Beneficiary city cannot exceed 70 characters'')))"
  using name_boundary [OF assms, of n] note_boundary [OF assms, of memo]
    variableSymbol_boundary [OF assms, of v] specificSymbol_boundary [OF assms, of v]
    constantSymbol_boundary [OF assms, of v] street_boundary [OF assms, of a s]
    city_boundary [OF assms, of a s]
  by blast

theorem boundary_acceptance_witness:
  "validateInput 0 (asAny minimalInput) = Inr ()
   \<and> validateInput 0 ((asAny minimalInput)\<lparr>beneficiaryName := Some (replicate 70 CHR ''x'')\<rparr>)
       = Inr ()
   \<and> validateInput 0 ((asAny minimalInput)\<lparr>beneficiaryName := Some (replicate 71 CHR ''x'')\<rparr>)
       = Inl (ValidationError ''Beneficiary name cannot exceed 70 characters'')
   \<and> validateInput 0 ((asAny minimalInput)\<lparr>paymentNote := Some (replicate 140 CHR ''x'')\<rparr>)
       = Inr ()
   \<and> validateInput 0 ((asAny minimalInput)\<lparr>paymentNote := Some (replicate 141 CHR ''x'')\<rparr>)
       = Inl (ValidationError ''Payment note cannot exceed 140 characters'')
   \<and> validateInput 0 ((asAny minimalInput)\<lparr>variableSymbol := Some ''1234567890''\<rparr>) = Inr ()
   \<and> validateInput 0 ((asAny minimalInput)\<lparr>variableSymbol := Some ''12345678901''\<rparr>)
       = Inl (ValidationError ''Variable symbol must be 1-10 digits'')
   \<and> validateInput 0 ((asAny minimalInput)\<lparr>constantSymbol := Some ''0308''\<rparr>) = Inr ()
   \<and> validateInput 0 ((asAny minimalInput)\<lparr>constantSymbol := Some ''12345''\<rparr>)
       = Inl (ValidationError ''Constant symbol must be 1-4 digits'')
   \<and> validateInput 0 ((asAny minimalInput)\<lparr>beneficiaryAddress :=
         Some (\<lparr>street = None, city = None\<rparr>\<lparr>street := Some (replicate 70 CHR ''x'')\<rparr>)\<rparr>) = Inr ()
   \<and> validateInput 0 ((asAny minimalInput)\<lparr>beneficiaryAddress :=
         Some (\<lparr>street = None, city = None\<rparr>\<lparr>city := Some (replicate 71 CHR ''x'')\<rparr>)\<rparr>)
       = Inl (ValidationError ''Beneficiary city cannot exceed 70 characters'')"
proof -
  have base: "validateInput 0 (asAny minimalInput) = Inr ()"
    unfolding minimalInput_def asAny_def by code_simp
  have n70: "trim (replicate 70 CHR ''x'') \<noteq> []" and n71: "trim (replicate 71 CHR ''x'') \<noteq> []"
    by code_simp+
  have d10: "''1234567890'' \<noteq> [] \<and> list_all isDigit ''1234567890''"
    and d11: "''12345678901'' \<noteq> [] \<and> list_all isDigit ''12345678901''"
    and d4: "''0308'' \<noteq> [] \<and> list_all isDigit ''0308''"
    and d5: "''12345'' \<noteq> [] \<and> list_all isDigit ''12345''"
    by code_simp+
  have a: "\<not> tooLong 70 (city \<lparr>street = None, city = None\<rparr>)"
    "\<not> tooLong 70 (street \<lparr>street = None, city = None\<rparr>)"
    by (simp_all add: tooLong_def)
  note at_limit = boundary_acceptance [OF base, where n = "replicate 70 CHR ''x''"
      and memo = "replicate 140 CHR ''x''" and v = "''1234567890''"
      and a = "\<lparr>street = None, city = None\<rparr>" and s = "replicate 70 CHR ''x''"]
  note past_limit = boundary_acceptance [OF base, where n = "replicate 71 CHR ''x''"
      and memo = "replicate 141 CHR ''x''" and v = "''12345678901''"
      and a = "\<lparr>street = None, city = None\<rparr>" and s = "replicate 71 CHR ''x''"]
  note at_four = boundary_acceptance [OF base, where v = "''0308''"]
  note past_four = boundary_acceptance [OF base, where v = "''12345''"]
  from at_limit n70 d10 a have
    "validateInput 0 ((asAny minimalInput)\<lparr>beneficiaryName := Some (replicate 70 CHR ''x'')\<rparr>)
       = Inr ()"
    "validateInput 0 ((asAny minimalInput)\<lparr>paymentNote := Some (replicate 140 CHR ''x'')\<rparr>)
       = Inr ()"
    "validateInput 0 ((asAny minimalInput)\<lparr>variableSymbol := Some ''1234567890''\<rparr>) = Inr ()"
    "validateInput 0 ((asAny minimalInput)\<lparr>beneficiaryAddress :=
         Some (\<lparr>street = None, city = None\<rparr>\<lparr>street := Some (replicate 70 CHR ''x'')\<rparr>)\<rparr>) = Inr ()"
    by simp_all
  moreover from past_limit n71 d11 a have
    "validateInput 0 ((asAny minimalInput)\<lparr>beneficiaryName := Some (replicate 71 CHR ''x'')\<rparr>)
       = Inl (ValidationError ''Beneficiary name cannot exceed 70 characters'')"
    "validateInput 0 ((asAny minimalInput)\<lparr>paymentNote := Some (replicate 141 CHR ''x'')\<rparr>)
       = Inl (ValidationError ''Payment note cannot exceed 140 characters'')"
    "validateInput 0 ((asAny minimalInput)\<lparr>variableSymbol := Some ''12345678901''\<rparr>)
       = Inl (ValidationError ''Variable symbol must be 1-10 digits'')"
    "validateInput 0 ((asAny minimalInput)\<lparr>beneficiaryAddress :=
         Some (\<lparr>street = None, city = None\<rparr>\<lparr>city := Some (replicate 71 CHR ''x'')\<rparr>)\<rparr>)
       = Inl (ValidationError ''Beneficiary city cannot exceed 70 characters'')"
    by simp_all
  moreover from at_four d4 have
    "validateInput 0 ((asAny minimalInput)\<lparr>constantSymbol := Some ''0308''\<rparr>) = Inr ()"
    by simp
  moreover from past_four d5 have
    "validateInput 0 ((asAny minimalInput)\<lparr>constantSymbol := Some ''12345''\<rparr>)
       = Inl (ValidationError ''Constant symbol must be 1-4 digits'')"
    by simp
  ultimately show ?thesis using base by blast
qed







section \<open>The adapter: properties\<close>

lemma transformFromDataModel_Inr:
  assumes "transformFromDataModel data = Inr r"
  shows "\<exists>payment rest account others.
    payments data = payment # rest \<and> bankAccounts payment = account # others
    \<and> BankAccount.iban account \<noteq> [] \<and> iban r = BankAccount.iban account
    \<and> currency r = (if truthy (currencyCode payment) then currencyCode payment else None)
    \<and> amount r = (if truthy (currencyCode payment) then Payment.amount payment else None)"
proof (cases "payments data")
  case Nil
  with assms show ?thesis by (simp add: transformFromDataModel_def)
next
  case p: (Cons payment rest)
  show ?thesis
  proof (cases "bankAccounts payment")
    case Nil
    with assms p show ?thesis by (simp add: transformFromDataModel_def)
  next
    case (Cons account others)
    show ?thesis
    proof (cases "BankAccount.iban account = []")
      case True
      with assms p Cons show ?thesis by (simp add: transformFromDataModel_def)
    next
      case False
      with assms p Cons have "r = \<lparr> iban = BankAccount.iban account,
         beneficiaryName =
           (case beneficiary payment of
              None \<Rightarrow> []
            | Some b \<Rightarrow> (case Beneficiary.name b of None \<Rightarrow> [] | Some n \<Rightarrow> n)),
         amount = (if truthy (currencyCode payment) then Payment.amount payment else None),
         currency = (if truthy (currencyCode payment) then currencyCode payment else None),
         variableSymbol = keep (Payment.variableSymbol payment),
         constantSymbol = keep (Payment.constantSymbol payment),
         specificSymbol = keep (Payment.specificSymbol payment),
         paymentNote = keep (Payment.paymentNote payment),
         dueDate = keep (paymentDueDate payment),
         swift = keep (bic account),
         originatorReference = keep (originatorsReferenceInformation payment),
         beneficiaryAddress =
           (case beneficiary payment of
              None \<Rightarrow> None
            | Some b \<Rightarrow>
                if truthy (Beneficiary.street b) \<or> truthy (Beneficiary.city b)
                then Some \<lparr> street = keep (Beneficiary.street b),
                            city = keep (Beneficiary.city b) \<rparr>
                else None) \<rparr>"
        by (simp add: transformFromDataModel_def)
      then have "iban r = BankAccount.iban account"
        and "currency r = (if truthy (currencyCode payment) then currencyCode payment else None)"
        and "amount r = (if truthy (currencyCode payment) then Payment.amount payment else None)"
        by simp_all
      with p Cons False show ?thesis by blast
    qed
  qed
qed

lemma transformFromDataModel_Inl:
  assumes "transformFromDataModel data = Inl e"
  shows "e = DecodingError ''No payment data found in QR code''
    \<or> e = DecodingError ''No IBAN found in payment data''"
proof (cases "payments data")
  case Nil
  with assms show ?thesis by (simp add: transformFromDataModel_def)
next
  case p: (Cons payment rest)
  show ?thesis
  proof (cases "bankAccounts payment")
    case Nil
    with assms p show ?thesis by (simp add: transformFromDataModel_def)
  next
    case (Cons account others)
    with assms p show ?thesis
      by (cases "BankAccount.iban account = []") (simp_all add: transformFromDataModel_def)
  qed
qed

text \<open>
  C9. Every error that \<^verbatim>\<open>validateInput\<close> raises is a \<^verbatim>\<open>ValidationError\<close> whose message
  is "Validation Error: " followed by the text of the violated rule; every error of the
  adapter is a \<^verbatim>\<open>DecodingError\<close> whose message is "Decoding Error: " followed by its text.
  So the message of the missing-IBAN failure is "Validation Error: IBAN is required", which
  contains the rule text and is not equal to it.
\<close>

theorem error_message_prefix:
  "(validateInput tz input = Inl e \<longrightarrow>
      PayBySquareError.name e = ''ValidationError''
      \<and> (\<exists>text. firstViolation tz input = Some text
            \<and> PayBySquareError.message e = ''Validation Error: '' @ text))
   \<and> (transformFromDataModel data = Inl e' \<longrightarrow>
      PayBySquareError.name e' = ''DecodingError''
      \<and> (\<exists>text. PayBySquareError.message e' = ''Decoding Error: '' @ text))
   \<and> PayBySquareError.message (ValidationError text') = ''Validation Error: '' @ text'
   \<and> PayBySquareError.message (DecodingError text') = ''Decoding Error: '' @ text'
   \<and> (iban input = None \<longrightarrow>
      (\<exists>err. validateInput tz input = Inl err
         \<and> PayBySquareError.message err = ''Validation Error: IBAN is required''
         \<and> PayBySquareError.message err \<noteq> ''IBAN is required''))"
proof -
  have validator: "PayBySquareError.name e = ''ValidationError''
      \<and> (\<exists>text. firstViolation tz input = Some text
            \<and> PayBySquareError.message e = ''Validation Error: '' @ text)"
    if "validateInput tz input = Inl e"
    using that unfolding validateInput_error by (auto simp add: ValidationError_def)
  have adapter: "PayBySquareError.name e' = ''DecodingError''
      \<and> (\<exists>text. PayBySquareError.message e' = ''Decoding Error: '' @ text)"
    if "transformFromDataModel data = Inl e'"
    using transformFromDataModel_Inl [OF that] by (auto simp add: DecodingError_def)
  have missing: "\<exists>err. validateInput tz input = Inl err
         \<and> PayBySquareError.message err = ''Validation Error: IBAN is required''
         \<and> PayBySquareError.message err \<noteq> ''IBAN is required''"
    if "iban input = None"
    using firstViolation_no_iban [OF that, of tz] unfolding validateInput_firstViolation
    by (simp add: ValidationError_def)
  show ?thesis
    using validator adapter missing by (simp add: ValidationError_def DecodingError_def)
qed

theorem error_message_prefix_witness:
  "validateInput 0 manyViolations = Inl (ValidationError ''IBAN is required'')
   \<and> PayBySquareError.name (ValidationError ''IBAN is required'') = ''ValidationError''
   \<and> PayBySquareError.message (ValidationError ''IBAN is required'')
       = ''Validation Error: IBAN is required''
   \<and> transformFromDataModel secondAccountOnly
       = Inl (DecodingError ''No IBAN found in payment data'')
   \<and> PayBySquareError.name (DecodingError ''No IBAN found in payment data'') = ''DecodingError''
   \<and> PayBySquareError.message (DecodingError ''No IBAN found in payment data'')
       = ''Decoding Error: No IBAN found in payment data''"
proof -
  have v: "validateInput 0 manyViolations = Inl (ValidationError ''IBAN is required'')"
    unfolding manyViolations_def by code_simp
  have d: "transformFromDataModel secondAccountOnly
       = Inl (DecodingError ''No IBAN found in payment data'')"
    unfolding secondAccountOnly_def noAmountPayment_def by code_simp
  have none: "iban manyViolations = None"
    by (simp add: manyViolations_def)
  note inst = error_message_prefix [of 0 manyViolations "ValidationError ''IBAN is required''"
      secondAccountOnly "DecodingError ''No IBAN found in payment data''"]
  from inst v d none show ?thesis
    by (simp add: ValidationError_def DecodingError_def)
qed

text \<open>
  C1. Amount/currency sentinel law. In the record decoded from the primary payment, the
  currency is the payment's currency code when that code is non-empty and absent otherwise,
  and the amount is the payment's amount when the code is non-empty and absent otherwise:
  the currency code is the only signal. So for a payment that carries an amount whenever it
  carries a currency code, amount and currency are populated iff the code is non-empty; and
  the sentinel, amount 0 with an empty currency code, decodes to both fields absent.
\<close>

theorem amount_currency_sentinel:
  assumes "transformFromDataModel data = Inr r" and "payments data = payment # rest"
  shows "currency r = (if truthy (currencyCode payment) then currencyCode payment else None)
    \<and> amount r = (if truthy (currencyCode payment) then Payment.amount payment else None)
    \<and> (currency r \<noteq> None \<longleftrightarrow> truthy (currencyCode payment))
    \<and> ((truthy (currencyCode payment) \<longrightarrow> Payment.amount payment \<noteq> None) \<longrightarrow>
         (amount r \<noteq> None \<and> currency r \<noteq> None \<longleftrightarrow> truthy (currencyCode payment)))
    \<and> (Payment.amount payment = Some (Finite 0) \<and> currencyCode payment = Some [] \<longrightarrow>
         amount r = None \<and> currency r = None \<and> amount r \<noteq> Some (Finite 0))"
proof -
  from transformFromDataModel_Inr [OF assms(1)] assms(2)
  have c: "currency r = (if truthy (currencyCode payment) then currencyCode payment else None)"
    and a: "amount r = (if truthy (currencyCode payment) then Payment.amount payment else None)"
    by auto
  have t: "truthy (currencyCode payment) \<Longrightarrow> currencyCode payment \<noteq> None"
    by (cases "currencyCode payment") (simp_all add: truthy_def)
  have e: "\<not> truthy (Some [])"
    by (simp add: truthy_def)
  show ?thesis
    unfolding c a using t e by auto
qed

text \<open>
  C1, witnessed on the sentinel model (amount 0, empty currency code), which decodes to the
  record without amount and currency, and on a model that carries 100.50 EUR.
\<close>

theorem amount_currency_sentinel_witness:
  "transformFromDataModel sentinelModel = Inr minimalInput
   \<and> payments sentinelModel = [noAmountPayment]
   \<and> Payment.amount noAmountPayment = Some (Finite 0)
   \<and> currencyCode noAmountPayment = Some []
   \<and> amount minimalInput = None \<and> currency minimalInput = None
   \<and> (\<exists>r. transformFromDataModel paidModel = Inr r
          \<and> amount r = Some (Finite (201 / 2)) \<and> currency r = Some ''EUR'')"
proof -
  have dec: "transformFromDataModel sentinelModel = Inr minimalInput"
    unfolding sentinelModel_def noAmountPayment_def minimalInput_def by code_simp
  have pay: "payments sentinelModel = [noAmountPayment]"
    by (simp add: sentinelModel_def)
  have sent: "Payment.amount noAmountPayment = Some (Finite 0)"
    "currencyCode noAmountPayment = Some []"
    by (simp_all add: noAmountPayment_def)
  from amount_currency_sentinel [OF dec pay] sent
  have absent: "amount minimalInput = None \<and> currency minimalInput = None"
    by blast
  define p where "p = noAmountPayment\<lparr> Payment.amount := Some (Finite (201 / 2)),
    currencyCode := Some ''EUR'' \<rparr>"
  have pay': "payments paidModel = [p]"
    by (simp add: paidModel_def p_def)
  have cc: "truthy (currencyCode p)" "currencyCode p = Some ''EUR''"
    "Payment.amount p = Some (Finite (201 / 2))"
    by (simp_all add: p_def truthy_def)
  obtain r where r: "transformFromDataModel paidModel = Inr r"
    unfolding paidModel_def noAmountPayment_def transformFromDataModel_def
    by simp
  from amount_currency_sentinel [OF r pay'] cc
  have "amount r = Some (Finite (201 / 2)) \<and> currency r = Some ''EUR''"
    by simp
  with r dec pay sent absent show ?thesis by blast
qed

lemma transformFromDataModel_total:
  "(payments data = [] \<longrightarrow>
      transformFromDataModel data = Inl (DecodingError ''No payment data found in QR code''))
   \<and> (payments data \<noteq> [] \<and> firstAccountIBAN data = None \<longrightarrow>
      transformFromDataModel data = Inl (DecodingError ''No IBAN found in payment data''))
   \<and> (\<forall>i. firstAccountIBAN data = Some i \<longrightarrow>
         (\<exists>r. transformFromDataModel data = Inr r \<and> iban r = i))"
proof (cases "payments data")
  case Nil
  then show ?thesis by (simp add: transformFromDataModel_def firstAccountIBAN_def)
next
  case p: (Cons payment rest)
  show ?thesis
  proof (cases "bankAccounts payment")
    case Nil
    with p show ?thesis by (simp add: transformFromDataModel_def firstAccountIBAN_def)
  next
    case (Cons account others)
    with p show ?thesis
      by (cases "BankAccount.iban account = []")
        (simp_all add: transformFromDataModel_def firstAccountIBAN_def carriesIBAN_def)
  qed
qed

text \<open>
  C7, as the code has it. The adapter looks at the first bank account of the first payment
  only: it raises a \<^verbatim>\<open>DecodingError\<close> iff the model has no payment entry, or the first
  payment has no first bank account, or that account's IBAN is empty ("No payment data found
  in QR code" in the first case, "No IBAN found in payment data" in the others). In every
  other case it returns a record whose IBAN is the IBAN of that first bank account.
\<close>

theorem decode_failure_first_account:
  "((\<exists>e. transformFromDataModel data = Inl e) \<longleftrightarrow> firstAccountIBAN data = None)
   \<and> (payments data = [] \<longrightarrow>
        transformFromDataModel data = Inl (DecodingError ''No payment data found in QR code''))
   \<and> (payments data \<noteq> [] \<and> firstAccountIBAN data = None \<longrightarrow>
        transformFromDataModel data = Inl (DecodingError ''No IBAN found in payment data''))
   \<and> (\<forall>i. firstAccountIBAN data = Some i \<longrightarrow>
        (\<exists>r. transformFromDataModel data = Inr r \<and> iban r = i))"
proof -
  note total = transformFromDataModel_total [of data]
  have empty: "firstAccountIBAN data = None" if "payments data = []"
    using that by (simp add: firstAccountIBAN_def)
  show ?thesis
  proof (cases "firstAccountIBAN data")
    case None
    with total have "\<exists>e. transformFromDataModel data = Inl e"
      by (cases "payments data = []") auto
    with None total show ?thesis by simp
  next
    case (Some i)
    with total obtain r where "transformFromDataModel data = Inr r"
      by blast
    then have "\<not> (\<exists>e. transformFromDataModel data = Inl e)"
      by simp
    with Some total empty show ?thesis by auto
  qed
qed

theorem decode_failure_first_account_witness:
  "firstAccountIBAN sentinelModel = Some ''SK9611000000002918599669''
   \<and> transformFromDataModel sentinelModel = Inr minimalInput
   \<and> iban minimalInput = ''SK9611000000002918599669''
   \<and> payments \<lparr> payments = [] \<rparr> = []
   \<and> transformFromDataModel \<lparr> payments = [] \<rparr>
       = Inl (DecodingError ''No payment data found in QR code'')
   \<and> payments secondAccountOnly \<noteq> [] \<and> firstAccountIBAN secondAccountOnly = None
   \<and> transformFromDataModel secondAccountOnly
       = Inl (DecodingError ''No IBAN found in payment data'')"
proof -
  have first: "firstAccountIBAN sentinelModel = Some ''SK9611000000002918599669''"
    unfolding sentinelModel_def noAmountPayment_def by code_simp
  have none: "payments secondAccountOnly \<noteq> [] \<and> firstAccountIBAN secondAccountOnly = None"
    unfolding secondAccountOnly_def noAmountPayment_def by code_simp
  have dec: "transformFromDataModel sentinelModel = Inr minimalInput"
    unfolding sentinelModel_def noAmountPayment_def minimalInput_def by code_simp
  from decode_failure_first_account [of sentinelModel] first dec
  have "iban minimalInput = ''SK9611000000002918599669''"
    by auto
  moreover from decode_failure_first_account [of "\<lparr> payments = [] \<rparr>"]
  have "transformFromDataModel \<lparr> payments = [] \<rparr>
       = Inl (DecodingError ''No payment data found in QR code'')"
    by simp
  moreover from decode_failure_first_account [of secondAccountOnly] none
  have "transformFromDataModel secondAccountOnly
       = Inl (DecodingError ''No IBAN found in payment data'')"
    by blast
  ultimately show ?thesis using first none dec by simp
qed

text \<open>
  C7, as the claim states it, fails: the primary payment of this model has a bank account
  with an IBAN, its second one, and the adapter raises the error all the same.
\<close>

theorem decode_failure_counterexample:
  "payments secondAccountOnly \<noteq> []
   \<and> list_ex carriesIBAN (bankAccounts (hd (payments secondAccountOnly)))
   \<and> transformFromDataModel secondAccountOnly
       = Inl (DecodingError ''No IBAN found in payment data'')"
  unfolding secondAccountOnly_def noAmountPayment_def by code_simp

section \<open>The compliance engine: properties\<close>

lemma fold_sortIssue:
  "fold sortIssue issues (es, ws) = (es @ filter isError issues, ws @ filter isWarning issues)"
proof (induction issues arbitrary: es ws)
  case Nil
  show ?case by simp
next
  case (Cons issue issues)
  have step: "sortIssue issue (es, ws) =
      (if isError issue then (es @ [issue], ws) else (es, ws @ [issue]))"
    by (simp add: sortIssue_def isError_def)
  show ?case
    by (simp add: step Cons.IH isWarning_def)
qed

lemma validateIBANChecksum_None:
  "validateIBANChecksum lib s = None \<longleftrightarrow> ibantools_isValidIBAN lib s"
  by (simp add: validateIBANChecksum_def)

lemma checksumErrors_eq:
  "checksumErrors lib input =
     (if ibantools_isValidIBAN lib (iban input) then [] else [ibanChecksumIssue])"
  by (simp add: checksumErrors_def validateIBANChecksum_def ibanChecksumIssue_def)

lemma checkCompliance_errors:
  "errors (checkCompliance lib input) =
     checksumErrors lib input @ filter isError (validateFieldFormats input)
       @ filter isError (validateBankingStandards lib input)"
  by (cases "validateIBANChecksum lib (iban input)")
    (simp_all add: checkCompliance_def Let_def fold_sortIssue checksumErrors_def)

lemma checkCompliance_warnings:
  "warnings (checkCompliance lib input) =
     filter isWarning (validateFieldFormats input)
       @ filter isWarning (validateBankingStandards lib input)"
  by (cases "validateIBANChecksum lib (iban input)")
    (simp_all add: checkCompliance_def Let_def fold_sortIssue)

lemma checkCompliance_isCompliant:
  "ComplianceResult.isCompliant (checkCompliance lib input)
     \<longleftrightarrow> errors (checkCompliance lib input) = []"
  by (simp add: checkCompliance_def Let_def)

lemma checkCompliance_details:
  "ibanValid (details (checkCompliance lib input)) = ibantools_isValidIBAN lib (iban input)"
  "fieldsValid (details (checkCompliance lib input))
     = (filter isError (validateFieldFormats input) = [])"
  "bankingStandardsValid (details (checkCompliance lib input))
     = (filter isError (validateBankingStandards lib input) = [])"
  "totalIssues (details (checkCompliance lib input))
     = length (errors (checkCompliance lib input)) + length (warnings (checkCompliance lib input))"
  by (simp_all add: checkCompliance_def Let_def validateIBANChecksum_None)


text \<open>
  C3. The boolean entry point returns what the report's \<open>isCompliant\<close> says, and that is
  true iff the report has no errors; warnings are not counted. It is false as soon as the
  checksum fails, and otherwise says whether the field-format and banking-standards groups
  produced no issue classified as error.
\<close>

theorem isCompliant_agrees_with_report:
  "isCompliant lib input = ComplianceResult.isCompliant (checkCompliance lib input)
   \<and> (ComplianceResult.isCompliant (checkCompliance lib input)
        \<longleftrightarrow> errors (checkCompliance lib input) = [])
   \<and> (\<not> ibantools_isValidIBAN lib (iban input) \<longrightarrow> \<not> isCompliant lib input)
   \<and> (ibantools_isValidIBAN lib (iban input) \<longrightarrow>
        (isCompliant lib input \<longleftrightarrow>
           filter isError (validateFieldFormats input) = []
           \<and> filter isError (validateBankingStandards lib input) = []))"
proof -
  have direct: "isCompliant lib input \<longleftrightarrow>
      ibantools_isValidIBAN lib (iban input)
      \<and> filter isError (validateFieldFormats input) = []
      \<and> filter isError (validateBankingStandards lib input) = []"
    by (simp add: isCompliant_def Let_def)
  have report: "ComplianceResult.isCompliant (checkCompliance lib input) \<longleftrightarrow>
      ibantools_isValidIBAN lib (iban input)
      \<and> filter isError (validateFieldFormats input) = []
      \<and> filter isError (validateBankingStandards lib input) = []"
    unfolding checkCompliance_isCompliant checkCompliance_errors checksumErrors_eq
    by simp
  show ?thesis
    using direct report checkCompliance_isCompliant [of lib input] by blast
qed

theorem isCompliant_agrees_with_report_witness:
  "\<not> ibantools_isValidIBAN modelLibrary (iban spacedIBAN)
   \<and> \<not> isCompliant modelLibrary spacedIBAN
   \<and> \<not> ComplianceResult.isCompliant (checkCompliance modelLibrary spacedIBAN)
   \<and> ibantools_isValidIBAN modelLibrary (iban unknownCurrency)
   \<and> filter isError (validateFieldFormats unknownCurrency) = []
   \<and> filter isError (validateBankingStandards modelLibrary unknownCurrency) = []
   \<and> validateBankingStandards modelLibrary unknownCurrency \<noteq> []
   \<and> isCompliant modelLibrary unknownCurrency
   \<and> ComplianceResult.isCompliant (checkCompliance modelLibrary unknownCurrency)"
proof -
  have bad: "\<not> ibantools_isValidIBAN modelLibrary (iban spacedIBAN)"
    unfolding modelLibrary_def spacedIBAN_def minimalInput_def by code_simp
  have good: "ibantools_isValidIBAN modelLibrary (iban unknownCurrency)"
    unfolding modelLibrary_def unknownCurrency_def minimalInput_def by code_simp
  have fields: "filter isError (validateFieldFormats unknownCurrency) = []"
    unfolding unknownCurrency_def minimalInput_def by code_simp
  have banking: "filter isError (validateBankingStandards modelLibrary unknownCurrency) = []"
    "validateBankingStandards modelLibrary unknownCurrency \<noteq> []"
    unfolding modelLibrary_def unknownCurrency_def minimalInput_def by code_simp+
  from isCompliant_agrees_with_report [of modelLibrary spacedIBAN] bad
  have "\<not> isCompliant modelLibrary spacedIBAN
    \<and> \<not> ComplianceResult.isCompliant (checkCompliance modelLibrary spacedIBAN)"
    by blast
  moreover from isCompliant_agrees_with_report [of modelLibrary unknownCurrency]
    good fields banking
  have "isCompliant modelLibrary unknownCurrency
    \<and> ComplianceResult.isCompliant (checkCompliance modelLibrary unknownCurrency)"
    by blast
  ultimately show ?thesis using bad good fields banking by blast
qed



text \<open>
  C10. White space is treated differently by the validator and by the compliance engine.
  The validator's structural check is the IBAN pattern applied to the string with its white
  space removed, and a record validates only if its stripped IBAN matches the pattern: the
  record whose IBAN is written in groups of four validates, although the string as written
  does not match the pattern. The engine hands the IBAN to the checksum primitive as it is:
  \<open>ibanValid\<close> is the primitive's verdict on the unstripped string, and when the primitive
  rejects that string the report carries the critical IBAN error, is not compliant, and has
  \<open>ibanValid\<close> false.
\<close>

theorem whitespace_asymmetry:
  "isValidIBAN s = ibanPattern (removeWhiteSpace s)
   \<and> (validateInput tz (asAny input) = Inr () \<longrightarrow> ibanPattern (removeWhiteSpace (iban input)))
   \<and> iban spacedIBAN = ''SK96 1100 0000 0029 1859 9669''
   \<and> removeWhiteSpace (iban spacedIBAN) = ''SK9611000000002918599669''
   \<and> \<not> ibanPattern (iban spacedIBAN)
   \<and> ibanPattern (removeWhiteSpace (iban spacedIBAN))
   \<and> validateInput tz (asAny spacedIBAN) = Inr ()
   \<and> ibanValid (details (checkCompliance lib input)) = ibantools_isValidIBAN lib (iban input)
   \<and> ibanValid (details (checkCompliance lib spacedIBAN))
       = ibantools_isValidIBAN lib ''SK96 1100 0000 0029 1859 9669''
   \<and> (\<not> ibantools_isValidIBAN lib ''SK96 1100 0000 0029 1859 9669'' \<longrightarrow>
        hd (errors (checkCompliance lib spacedIBAN)) = ibanChecksumIssue
        \<and> ibanChecksumIssue \<in> set (errors (checkCompliance lib spacedIBAN))
        \<and> severity ibanChecksumIssue = Critical \<and> field ibanChecksumIssue = ''iban''
        \<and> \<not> ibanValid (details (checkCompliance lib spacedIBAN))
        \<and> \<not> ComplianceResult.isCompliant (checkCompliance lib spacedIBAN))"
proof -
  have strip: "isValidIBAN s = ibanPattern (removeWhiteSpace s)"
    by (simp add: isValidIBAN_def)
  have only_if: "ibanPattern (removeWhiteSpace (iban input))"
    if "validateInput tz (asAny input) = Inr ()"
  proof -
    from that have "\<not> ibanMalformed (asAny input)"
      by (simp add: validateInput_ok_iff)
    then show ?thesis
      by (simp add: ibanMalformed_def asAny_def isValidIBAN_def)
  qed
  have v: "validateInput tz (asAny spacedIBAN) = Inr ()"
    unfolding spacedIBAN_def minimalInput_def asAny_def by code_simp
  have raw: "iban spacedIBAN = ''SK96 1100 0000 0029 1859 9669''"
    by (simp add: spacedIBAN_def)
  have stripped: "removeWhiteSpace (iban spacedIBAN) = ''SK9611000000002918599669''"
    unfolding spacedIBAN_def minimalInput_def by code_simp
  have pattern: "\<not> ibanPattern (iban spacedIBAN)"
    "ibanPattern (removeWhiteSpace (iban spacedIBAN))"
    unfolding spacedIBAN_def minimalInput_def by code_simp+
  have verdict: "ibanValid (details (checkCompliance lib input))
       = ibantools_isValidIBAN lib (iban input)"
    by (rule checkCompliance_details(1))
  have valid: "ibanValid (details (checkCompliance lib spacedIBAN))
       = ibantools_isValidIBAN lib ''SK96 1100 0000 0029 1859 9669''"
    using checkCompliance_details(1) [of lib spacedIBAN] raw by simp
  have rejected: "hd (errors (checkCompliance lib spacedIBAN)) = ibanChecksumIssue
        \<and> ibanChecksumIssue \<in> set (errors (checkCompliance lib spacedIBAN))
        \<and> \<not> ComplianceResult.isCompliant (checkCompliance lib spacedIBAN)"
    if "\<not> ibantools_isValidIBAN lib ''SK96 1100 0000 0029 1859 9669''"
    using that raw
    by (simp add: checkCompliance_isCompliant checkCompliance_errors checksumErrors_eq)
  have issue: "severity ibanChecksumIssue = Critical \<and> field ibanChecksumIssue = ''iban''"
    by (simp add: ibanChecksumIssue_def)
  from strip only_if have validator: "isValidIBAN s = ibanPattern (removeWhiteSpace s)
   \<and> (validateInput tz (asAny input) = Inr () \<longrightarrow> ibanPattern (removeWhiteSpace (iban input)))"
    by blast
  from valid rejected issue have engine:
    "\<not> ibantools_isValidIBAN lib ''SK96 1100 0000 0029 1859 9669'' \<longrightarrow>
        hd (errors (checkCompliance lib spacedIBAN)) = ibanChecksumIssue
        \<and> ibanChecksumIssue \<in> set (errors (checkCompliance lib spacedIBAN))
        \<and> severity ibanChecksumIssue = Critical \<and> field ibanChecksumIssue = ''iban''
        \<and> \<not> ibanValid (details (checkCompliance lib spacedIBAN))
        \<and> \<not> ComplianceResult.isCompliant (checkCompliance lib spacedIBAN)"
    by simp
  show ?thesis
    using validator raw stripped pattern v verdict valid engine
    by (intro conjI) blast+
qed

theorem whitespace_asymmetry_witness:
  "\<not> ibantools_isValidIBAN modelLibrary ''SK96 1100 0000 0029 1859 9669''
   \<and> ibantools_isValidIBAN modelLibrary ''SK9611000000002918599669''
   \<and> validateInput 0 (asAny spacedIBAN) = Inr ()
   \<and> ibanPattern (removeWhiteSpace (iban spacedIBAN))
   \<and> \<not> ibanPattern (iban spacedIBAN)
   \<and> ibanChecksumIssue \<in> set (errors (checkCompliance modelLibrary spacedIBAN))
   \<and> \<not> ibanValid (details (checkCompliance modelLibrary spacedIBAN))
   \<and> \<not> ComplianceResult.isCompliant (checkCompliance modelLibrary spacedIBAN)"
proof -
  have bad: "\<not> ibantools_isValidIBAN modelLibrary ''SK96 1100 0000 0029 1859 9669''"
    unfolding modelLibrary_def by code_simp
  have good: "ibantools_isValidIBAN modelLibrary ''SK9611000000002918599669''"
    unfolding modelLibrary_def by code_simp
  from whitespace_asymmetry [of "iban spacedIBAN" 0 spacedIBAN modelLibrary] bad good
  show ?thesis
    by blast
qed

section \<open>The due date\<close>

lemma daysInMonth_bounds: "28 \<le> daysInMonth y m \<and> daysInMonth y m \<le> 31"
  by (simp add: daysInMonth_def)

lemma daysInMonth_december: "daysInMonth y 12 = 31"
  by (simp add: daysInMonth_def)

lemma utcDate_real:
  assumes "utcDate y m d = Some c"
  shows "realDate c"
proof (cases "m < 1 \<or> 12 < m \<or> d < 1 \<or> 31 < d")
  case True
  with assms show ?thesis by (simp add: utcDate_def)
next
  case range: False
  show ?thesis
  proof (cases "d \<le> daysInMonth y m")
    case True
    with assms range have "c = (y, m, d)"
      by (simp add: utcDate_def)
    with range True show ?thesis
      by (simp add: realDate_def)
  next
    case over: False
    with range have "m \<noteq> 12"
      using daysInMonth_december [of y] by auto
    with assms range over have c: "c = (y, m + 1, d - daysInMonth y m)"
      by (simp add: utcDate_def)
    from range over daysInMonth_bounds [of y m] daysInMonth_bounds [of y "m + 1"]
    have "1 \<le> d - daysInMonth y m \<and> d - daysInMonth y m \<le> daysInMonth y (m + 1)"
      by linarith
    with range \<open>m \<noteq> 12\<close> show ?thesis
      unfolding c realDate_def by simp
  qed
qed

lemma prevDay_real:
  assumes "realDate c"
  shows "realDate (prevDay c)"
proof -
  obtain y m d where c: "c = (y, m, d)"
    by (cases c)
  from assms c have r: "1 \<le> m" "m \<le> 12" "1 \<le> d" "d \<le> daysInMonth y m"
    by (simp_all add: realDate_def)
  show ?thesis
  proof (cases "1 < d")
    case True
    with r have "1 \<le> d - 1 \<and> d - 1 \<le> daysInMonth y m"
      by linarith
    with r True show ?thesis
      unfolding c by (simp add: prevDay_def realDate_def)
  next
    case first: False
    show ?thesis
    proof (cases "1 < m")
      case True
      with r have month: "1 \<le> m - 1 \<and> m - 1 \<le> 12"
        by linarith
      from daysInMonth_bounds [of y "m - 1"]
      have day: "1 \<le> daysInMonth y (m - 1)"
        by linarith
      from first True have "prevDay (y, m, d) = (y, m - 1, daysInMonth y (m - 1))"
        by (simp add: prevDay_def)
      with month day show ?thesis
        unfolding c by (simp add: realDate_def)
    next
      case False
      with first show ?thesis
        unfolding c by (simp add: prevDay_def realDate_def daysInMonth_december)
    qed
  qed
qed

lemma isValidISODate_real:
  assumes "isValidISODate tz date" and "matchISODate date = Some (year, month, day)"
  shows "realDate (int (parseInt year), parseInt month, parseInt day)"
proof -
  from assms obtain c where
    c: "utcDate (int (parseInt year)) (parseInt month) (parseInt day) = Some c"
    and same: "localDate tz c = (int (parseInt year), parseInt month, parseInt day)"
    by (auto simp add: isValidISODate_def split: option.splits)
  have "realDate (localDate tz c)"
    using utcDate_real [OF c] prevDay_real [of c] by (simp add: localDate_def)
  with same show ?thesis by simp
qed

lemma dueDate_boundary:
  assumes "validateInput tz (input\<lparr>dueDate := None\<rparr>) = Inr ()"
  shows "validateInput tz (input\<lparr>dueDate := Some d\<rparr>) =
    (if d = [] \<or> isValidISODate tz d then Inr ()
     else Inl (ValidationError ''Due date must be in ISO 8601 format (YYYY-MM-DD)''))"
  using assms unfolding validateInput_ok_iff
  unfolding validateInput_firstViolation firstViolation_def validationRules_def
  by (simp add: rule_defs)

lemma validator_rejects_unreal_date:
  assumes "dueDate input = Some date" and "matchISODate date = Some (year, month, day)"
    and "\<not> realDate (int (parseInt year), parseInt month, parseInt day)"
  shows "\<exists>text. validateInput tz input = Inl (ValidationError text)"
proof -
  from assms(2) have "date \<noteq> []"
    by (auto simp add: matchISODate_def split: if_splits)
  moreover from assms(2,3) have "\<not> isValidISODate tz date"
    using isValidISODate_real by blast
  ultimately have "dueDateMalformed tz input"
    using assms(1) by (simp add: dueDateMalformed_def)
  then have "validateInput tz input \<noteq> Inr ()"
    by (simp add: validateInput_ok_iff)
  then show ?thesis
    unfolding validateInput_firstViolation by (auto split: option.splits)
qed

text \<open>
  C5. The due date "2026-02-30" matches the grammar and is no calendar date. The validator
  rejects the record, in every time zone; the report of the compliance engine has no issue
  for the field \<open>dueDate\<close>, among its errors or its warnings, and says that the fields are
  valid: its date rule tests the grammar only.
\<close>

theorem february30_validator_rejects_engine_accepts:
  "matchISODate ''2026-02-30'' = Some (''2026'', ''02'', ''30'')
   \<and> \<not> realDate (2026, 2, 30)
   \<and> validateInput tz (asAny february30)
       = Inl (ValidationError ''Due date must be in ISO 8601 format (YYYY-MM-DD)'')
   \<and> filter (fieldIs ''dueDate'') (errors (checkCompliance lib february30)) = []
   \<and> filter (fieldIs ''dueDate'') (warnings (checkCompliance lib february30)) = []
   \<and> fieldsValid (details (checkCompliance lib february30))"
proof -
  have m: "matchISODate ''2026-02-30'' = Some (''2026'', ''02'', ''30'')"
    by code_simp
  have n: "int (parseInt ''2026'') = 2026" "parseInt ''02'' = 2" "parseInt ''30'' = 30"
    by code_simp+
  have unreal: "\<not> realDate (2026, 2, 30)"
    by code_simp
  have invalid: "\<not> isValidISODate tz ''2026-02-30''"
    using isValidISODate_real [OF _ m, of tz] unreal unfolding n by blast
  have base: "validateInput tz ((asAny february30)\<lparr>dueDate := None\<rparr>) = Inr ()"
    unfolding february30_def minimalInput_def asAny_def by code_simp
  have upd: "(asAny february30)\<lparr>dueDate := Some ''2026-02-30''\<rparr> = asAny february30"
    by (simp add: february30_def minimalInput_def asAny_def)
  have v: "validateInput tz (asAny february30)
       = Inl (ValidationError ''Due date must be in ISO 8601 format (YYYY-MM-DD)'')"
    using dueDate_boundary [OF base, of "''2026-02-30''"] invalid unfolding upd by simp
  have fields: "validateFieldFormats february30 = []"
    unfolding february30_def minimalInput_def by code_simp
  have banking: "validateBankingStandards lib february30 = []"
    by (simp add: validateBankingStandards_def february30_def minimalInput_def push_def)
  have iban: "\<not> fieldIs ''dueDate'' ibanChecksumIssue"
    by (simp add: fieldIs_def ibanChecksumIssue_def)
  have e: "filter (fieldIs ''dueDate'') (errors (checkCompliance lib february30)) = []"
    using iban by (simp add: checkCompliance_errors checksumErrors_eq fields banking)
  have w: "filter (fieldIs ''dueDate'') (warnings (checkCompliance lib february30)) = []"
    by (simp add: checkCompliance_warnings fields banking)
  have f: "fieldsValid (details (checkCompliance lib february30))"
    by (simp add: checkCompliance_details fields)
  from m unreal v e w f show ?thesis by blast
qed

end
